theory Spec2Isabelle
  imports Main "HOL-Library.Word"
begin

unbundle bit_operations_syntax

section \<open>JavaScript values the client computes with\<close>

text \<open>
  The client is TypeScript running on Deno. Its numbers are used as array lengths, byte
  values, offsets and close codes: integers, modelled as \<open>int\<close> (\<open>nat\<close> for a
  length). The bitwise operators \<open>|\<close>, \<open>&\<close>, \<open><<\<close> and \<open>>>\<close> convert both operands to
  32-bit two's complement, take the shift count modulo 32 and return a signed 32-bit
  result; that is written out here on \<open>32 word\<close>.
\<close>

type_synonym byte = "8 word"

definition ToInt32 :: "int \<Rightarrow> 32 word" where
  "ToInt32 x = word_of_int x"

definition js_or :: "int \<Rightarrow> int \<Rightarrow> int" where
  "js_or a b = sint (ToInt32 a OR ToInt32 b)"

definition js_and :: "int \<Rightarrow> int \<Rightarrow> int" where
  "js_and a b = sint (ToInt32 a AND ToInt32 b)"

definition js_shl :: "int \<Rightarrow> nat \<Rightarrow> int" where
  "js_shl a n = sint (push_bit (n mod 32) (ToInt32 a))"

definition js_shr :: "int \<Rightarrow> nat \<Rightarrow> int" where
  "js_shr a n = sint (signed_drop_bit (n mod 32) (ToInt32 a))"

text \<open>A store into a \<open>Uint8Array\<close> keeps the value modulo 256.\<close>

definition ToUint8 :: "int \<Rightarrow> byte" where
  "ToUint8 x = word_of_int x"

text \<open>
  \<open>a[i]\<close> on a \<open>Uint8Array\<close>: \<open>undefined\<close> (here \<open>None\<close>) outside the array. Every
  indexed read of the client is an operand of a bitwise operator, which takes
  \<open>undefined\<close> as 0: that conversion is \<open>num\<close>.
\<close>

definition at :: "byte list \<Rightarrow> int \<Rightarrow> byte option" where
  "at a i = (if 0 \<le> i \<and> i < int (length a) then Some (a ! nat i) else None)"

definition num :: "byte option \<Rightarrow> int" where
  "num v = (case v of None \<Rightarrow> 0 | Some b \<Rightarrow> uint b)"

text \<open>
  \<open>a.subarray(begin, end)\<close>: a negative index counts from the end of the array, both
  indices are clamped to the array, and an end before the begin gives the empty view.
\<close>

definition subarray :: "byte list \<Rightarrow> int \<Rightarrow> int \<Rightarrow> byte list" where
  "subarray a b e =
     (let len = int (length a);
          rb = (if b < 0 then max (len + b) 0 else min b len);
          re = (if e < 0 then max (len + e) 0 else min e len)
      in take (nat (max (re - rb) 0)) (drop (nat rb) a))"

definition subarray_begin :: "byte list \<Rightarrow> int \<Rightarrow> nat" where
  "subarray_begin a b =
     (let len = int (length a) in nat (if b < 0 then max (len + b) 0 else min b len))"

text \<open>
  \<open>target.set(source, offset)\<close>, which the client only calls with
  \<open>offset + source.length \<le> target.length\<close>.
\<close>

definition set_at :: "byte list \<Rightarrow> byte list \<Rightarrow> nat \<Rightarrow> byte list" where
  "set_at target source off = take off target @ source @ drop (off + length source) target"

section \<open>FrameGenerator\<close>

text \<open>
  The constructor of \<open>FrameGenerator\<close>. The third argument is optional
  (\<open>None\<close> when it is omitted). \<open>getRandomValues i\<close> is the byte that
  \<open>crypto.getRandomValues\<close> writes at index \<open>i\<close> of the masking key. The constructor
  XORs its argument \<open>data\<close> in place, so the result is the pair of the field \<open>frame\<close>
  and of the caller's array as the constructor leaves it.
\<close>

definition FrameGenerator ::
  "int \<Rightarrow> byte list \<Rightarrow> bool option \<Rightarrow> (nat \<Rightarrow> byte) \<Rightarrow> byte list \<times> byte list" where
  "FrameGenerator opcode data masked getRandomValues =
     (let this_masked = (case masked of None \<Rightarrow> True | Some m \<Rightarrow> (if m \<noteq> True then m else True));
          headerLen = (if this_masked then 6 else 2 :: nat);
          payloadLen = length data;
          payloadLenBytes = (if payloadLen > 125 then (if payloadLen \<le> 65535 then 2 else 8) else 0 :: nat);
          header = replicate (headerLen + payloadLenBytes) (0 :: byte);
          header = header[0 := ToUint8 (js_or 0x80 opcode)];
          mbit = (if masked = Some True then 0x80 else 0x00 :: int);
          header =
            (if payloadLen \<le> 125 then header[1 := ToUint8 (js_or mbit (int payloadLen))]
             else if payloadLen \<le> 65535 then
               header[1 := ToUint8 (js_or mbit 126),
                      2 := ToUint8 (js_and (js_shr (int payloadLen) 8) 0xff),
                      3 := ToUint8 (js_and (int payloadLen) 0xff)]
             else
               fold (\<lambda>i h. h[2 + i := ToUint8 (js_and (js_shr (int payloadLen) ((7 - i) * 8)) 0xff)])
                 [0..<8] (header[1 := ToUint8 (js_or mbit 127)]));
          maskingKey = (if this_masked then Some (map getRandomValues [0..<4]) else None);
          header = (case maskingKey of None \<Rightarrow> header | Some k \<Rightarrow> set_at header k (headerLen - 4));
          data =
            (case maskingKey of
               None \<Rightarrow> data
             | Some k \<Rightarrow>
                 if masked = Some True
                 then map (\<lambda>i. (data ! i) XOR (k ! (i mod 4))) [0..<payloadLen]
                 else data)
      in (header @ data, data))"

section \<open>The frame format as the specification words it\<close>

text \<open>
  A second encoder, written from the specification's description of Encode and not from
  the code, to compare \<open>FrameGenerator\<close> with: byte 0 is FIN (always 1) and the opcode in
  bits 3 to 0; byte 1 is the mask flag in bit 7 and the length field in bits 6 to 0 (the
  length up to 125, else 126 and two big-endian length bytes up to 65535, else 127 and
  eight big-endian length bytes); a masked frame has the four key bytes right after the
  length field and its payload XORed with \<open>key[i mod 4]\<close>.
\<close>

definition big_endian :: "nat \<Rightarrow> nat \<Rightarrow> byte list" where
  "big_endian n v = map (\<lambda>i. of_nat (v div 256 ^ (n - 1 - i))) [0..<n]"

definition spec_Encode :: "nat \<Rightarrow> byte list \<Rightarrow> bool \<Rightarrow> byte list \<Rightarrow> byte list" where
  "spec_Encode opcode payload masked key =
     (let len = length payload;
          flag = (if masked then 128 else 0 :: nat)
      in [of_nat (128 + opcode mod 16)]
         @ (if len \<le> 125 then [of_nat (flag + len)]
            else if len \<le> 65535 then of_nat (flag + 126) # big_endian 2 len
            else of_nat (flag + 127) # big_endian 8 len)
         @ (if masked then key else [])
         @ (if masked then map (\<lambda>i. (payload ! i) XOR (key ! (i mod 4))) [0..<len] else payload))"

section \<open>Strings, \<open>TextDecoder\<close> and \<open>TextEncoder\<close>\<close>

text \<open>
  A JavaScript string is a sequence of UTF-16 code units; \<open>str\<close> turns a literal of
  the theory into one. \<open>TextDecoder_decode\<close> is \<open>new TextDecoder().decode\<close>, the
  UTF-8 decoder of the Encoding Standard: a byte that cannot continue or start a
  sequence, and a sequence cut short, give U+FFFD, and the offending byte is read again
  as the start of a sequence; a byte order mark at the start is dropped.
  \<open>TextEncoder_encode\<close> is \<open>new TextEncoder().encode\<close>.
\<close>

type_synonym jsstring = "nat list"

definition str :: "string \<Rightarrow> jsstring" where
  "str s = map of_char s"

fun utf8_decode :: "nat \<Rightarrow> nat \<Rightarrow> nat \<Rightarrow> nat \<Rightarrow> byte list \<Rightarrow> nat list" where
  "utf8_decode cp needed lower upper [] = (if needed \<noteq> 0 then [0xFFFD] else [])"
| "utf8_decode cp needed lower upper (b # bs) =
     (let v = unat b in
      if needed = 0 then
        if v \<le> 0x7F then v # utf8_decode 0 0 0x80 0xBF bs
        else if 0xC2 \<le> v \<and> v \<le> 0xDF then utf8_decode (v mod 32) 1 0x80 0xBF bs
        else if 0xE0 \<le> v \<and> v \<le> 0xEF then
          utf8_decode (v mod 16) 2 (if v = 0xE0 then 0xA0 else 0x80) (if v = 0xED then 0x9F else 0xBF) bs
        else if 0xF0 \<le> v \<and> v \<le> 0xF4 then
          utf8_decode (v mod 8) 3 (if v = 0xF0 then 0x90 else 0x80) (if v = 0xF4 then 0x8F else 0xBF) bs
        else 0xFFFD # utf8_decode 0 0 0x80 0xBF bs
      else if v < lower \<or> upper < v then 0xFFFD # utf8_decode 0 0 0x80 0xBF (b # bs)
      else if needed = 1 then (cp * 64 + v mod 64) # utf8_decode 0 0 0x80 0xBF bs
      else utf8_decode (cp * 64 + v mod 64) (needed - 1) 0x80 0xBF bs)"

definition utf16_units :: "nat \<Rightarrow> nat list" where
  "utf16_units cp =
     (if cp < 0x10000 then [cp]
      else [0xD800 + (cp - 0x10000) div 0x400, 0xDC00 + (cp - 0x10000) mod 0x400])"

definition TextDecoder_decode :: "byte list \<Rightarrow> jsstring" where
  "TextDecoder_decode bytes =
     concat (map utf16_units
       (utf8_decode 0 0 0x80 0xBF
          (if take 3 bytes = [0xEF, 0xBB, 0xBF] then drop 3 bytes else bytes)))"

fun utf16_code_points :: "jsstring \<Rightarrow> nat list" where
  "utf16_code_points [] = []"
| "utf16_code_points [u] = [if 0xD800 \<le> u \<and> u \<le> 0xDFFF then 0xFFFD else u]"
| "utf16_code_points (u # v # r) =
     (if 0xD800 \<le> u \<and> u \<le> 0xDBFF \<and> 0xDC00 \<le> v \<and> v \<le> 0xDFFF
      then (0x10000 + (u - 0xD800) * 0x400 + (v - 0xDC00)) # utf16_code_points r
      else (if 0xD800 \<le> u \<and> u \<le> 0xDFFF then 0xFFFD else u) # utf16_code_points (v # r))"

definition utf8_bytes :: "nat \<Rightarrow> byte list" where
  "utf8_bytes cp =
     (if cp < 0x80 then [of_nat cp]
      else if cp < 0x800 then [of_nat (0xC0 + cp div 64), of_nat (0x80 + cp mod 64)]
      else if cp < 0x10000 then
        [of_nat (0xE0 + cp div 4096), of_nat (0x80 + cp div 64 mod 64), of_nat (0x80 + cp mod 64)]
      else
        [of_nat (0xF0 + cp div 262144), of_nat (0x80 + cp div 4096 mod 64),
         of_nat (0x80 + cp div 64 mod 64), of_nat (0x80 + cp mod 64)])"

definition TextEncoder_encode :: "jsstring \<Rightarrow> byte list" where
  "TextEncoder_encode s = concat (map utf8_bytes (utf16_code_points s))"

text \<open>
  \<open>s.trim()\<close> removes the white space and line terminators of ECMAScript from both
  ends.
\<close>

definition js_whitespace :: "nat \<Rightarrow> bool" where
  "js_whitespace u \<longleftrightarrow>
     u \<in> {0x09, 0x0A, 0x0B, 0x0C, 0x0D, 0x20, 0xA0, 0x1680, 0x2028, 0x2029, 0x202F, 0x205F,
          0x3000, 0xFEFF}
     \<or> (0x2000 \<le> u \<and> u \<le> 0x200A)"

definition trim :: "jsstring \<Rightarrow> jsstring" where
  "trim s = rev (dropWhile js_whitespace (rev (dropWhile js_whitespace s)))"

section \<open>The client\<close>

datatype ReadyState = CONNECTING | CONNECTED | OPEN | CLOSING | CLOSED

type_synonym ErrorTypes = int

definition PROTOCOL_ERROR :: ErrorTypes where "PROTOCOL_ERROR = 1002"
definition INVALID_OPCODE :: ErrorTypes where "INVALID_OPCODE = 1003"
definition INTERNAL_ERROR :: ErrorTypes where "INTERNAL_ERROR = 1011"

datatype DataTypes = TEXT | BINARY

datatype MessageData = String jsstring | Uint8Array "byte list"

datatype Message = Message (msg_data: MessageData) (msg_type: DataTypes)

text \<open>
  What the client does to the outside, in the order it does it: the bytes it hands to
  \<open>conn.write\<close>, the closing of the transport, the calls of the user's handlers, and
  a promise that is rejected with nothing awaiting it (a write on a connection that is
  not there).
\<close>

datatype effect =
    Write "byte list"
  | ConnClose
  | OnReady
  | OnMessage Message
  | OnClose ErrorTypes
  | Rejection

text \<open>
  A write returns a promise; the callback the client chains on it runs when the write
  has completed. The callbacks of the writes in flight are kept in \<open>pending\<close>.
\<close>

datatype continuation = SendDone | CloseDone

record URL =
  protocol :: jsstring
  hostname :: jsstring
  port :: jsstring
  pathname :: jsstring
  origin :: jsstring

record ConnectionOptions =
  url :: jsstring
  headers :: "(jsstring \<times> jsstring) list option"
  protocols :: "jsstring list option"
  extensions :: "jsstring list option"

text \<open>
  The fields of the class. \<open>connection\<close> says whether the field holds the transport;
  \<open>onReady\<close>, \<open>onMessage\<close>, \<open>onError\<close> and \<open>onClose\<close> say whether the user has
  assigned a handler (a call \<open>this.onClose?.(code)\<close> does nothing without one).
  \<open>draws\<close> counts the calls of \<open>crypto.getRandomValues\<close> so far: the functions below
  take the random source \<open>rnd\<close>, where \<open>rnd k i\<close> is byte \<open>i\<close> of call \<open>k\<close>.
\<close>

record WebSpocketClient =
  url :: URL
  protocols :: "jsstring list option"
  headers :: "(jsstring \<times> jsstring) list option"
  extensions :: "jsstring list option"
  readyState :: ReadyState
  connection :: bool
  onReady :: bool
  onMessage :: bool
  onError :: bool
  onClose :: bool
  trace :: "effect list"
  pending :: "continuation list"
  draws :: nat

datatype js_error = TypeError | Error string

text \<open>
  The constructor. \<open>new URL(s)\<close> is the platform's parser, taken as the parameter
  \<open>new_URL\<close> (\<open>None\<close> where it throws).
\<close>

definition constructor ::
  "(jsstring \<Rightarrow> URL option) \<Rightarrow> ConnectionOptions \<Rightarrow> js_error + WebSpocketClient" where
  "constructor new_URL connectOptions =
     (case new_URL (ConnectionOptions.url connectOptions) of
        None \<Rightarrow> Inl TypeError
      | Some u \<Rightarrow>
          if protocol u \<noteq> str ''ws:'' \<and> protocol u \<noteq> str ''wss:''
          then Inl (Error ''Invalid protocol'')
          else Inr \<lparr>url = u,
                    protocols = ConnectionOptions.protocols connectOptions,
                    headers = ConnectionOptions.headers connectOptions,
                    extensions = ConnectionOptions.extensions connectOptions,
                    readyState = CLOSED, connection = False,
                    onReady = False, onMessage = False, onError = False, onClose = False,
                    trace = [], pending = [], draws = 0\<rparr>)"

text \<open>\<open>write(conn, data)\<close> on a connection that is there: the bytes go to the transport.\<close>

definition write_conn :: "WebSpocketClient \<Rightarrow> byte list \<Rightarrow> WebSpocketClient" where
  "write_conn c bytes = c\<lparr>trace := trace c @ [Write bytes]\<rparr>"

definition send :: "(nat \<Rightarrow> nat \<Rightarrow> byte) \<Rightarrow> WebSpocketClient \<Rightarrow> jsstring \<Rightarrow> WebSpocketClient" where
  "send rnd c data =
     (if readyState c = OPEN \<or> readyState c = CONNECTED then
        if data = [] then c
        else
          let c = c\<lparr>readyState := OPEN\<rparr>;
              frame = fst (FrameGenerator 0x1 (TextEncoder_encode data) (Some True) (rnd (draws c)));
              c = c\<lparr>draws := Suc (draws c)\<rparr>
          in if connection c then (write_conn c frame)\<lparr>pending := pending c @ [SendDone]\<rparr>
             else c\<lparr>trace := trace c @ [Rejection]\<rparr>
      else c)"

definition close :: "(nat \<Rightarrow> nat \<Rightarrow> byte) \<Rightarrow> WebSpocketClient \<Rightarrow> ErrorTypes \<Rightarrow> WebSpocketClient" where
  "close rnd c errorType =
     (if readyState c \<noteq> CLOSED \<and> readyState c \<noteq> CLOSING then
        let c = c\<lparr>readyState := CLOSING\<rparr>
        in if connection c then
             let errorTypeBytes =
                   [ToUint8 (js_and (js_shr errorType 8) 0xFF), ToUint8 (js_and errorType 0xFF)];
                 frame = fst (FrameGenerator 0x8 errorTypeBytes (Some True) (rnd (draws c)));
                 c = c\<lparr>draws := Suc (draws c)\<rparr>;
                 c = (write_conn c frame)\<lparr>pending := pending c @ [CloseDone]\<rparr>
             in c\<lparr>connection := False\<rparr>
           else c
      else c)"

text \<open>
  The callback of a completed write, and the completion of all the writes in flight,
  the oldest first.
\<close>

fun resume :: "continuation \<Rightarrow> WebSpocketClient \<Rightarrow> WebSpocketClient" where
  "resume SendDone c = c\<lparr>readyState := CONNECTED\<rparr>"
| "resume CloseDone c = c\<lparr>trace := trace c @ [ConnClose], readyState := CLOSED\<rparr>"

definition writes_completed :: "WebSpocketClient \<Rightarrow> WebSpocketClient" where
  "writes_completed c = fold resume (pending c) (c\<lparr>pending := []\<rparr>)"

text \<open>
  \<open>handleFrame\<close>. It is called without \<open>await\<close>, and everything it does happens before
  its first suspension. The result holds the client and the array \<open>data\<close> as the call
  leaves it (the Pong's \<open>FrameGenerator\<close> masks it in place).
\<close>

definition handleFrame ::
  "(nat \<Rightarrow> nat \<Rightarrow> byte) \<Rightarrow> WebSpocketClient \<Rightarrow> int \<Rightarrow> byte list \<Rightarrow> WebSpocketClient \<times> byte list" where
  "handleFrame rnd c opcode data =
     (if opcode = 0x1 then
        (if onMessage c
         then c\<lparr>trace := trace c @ [OnMessage (Message (String (TextDecoder_decode data)) TEXT)]\<rparr>
         else c, data)
      else if opcode = 0x2 then
        (if onMessage c
         then c\<lparr>trace := trace c @ [OnMessage (Message (Uint8Array data) BINARY)]\<rparr>
         else c, data)
      else if opcode = 0x9 then
        (let (frame, data) = FrameGenerator 0xA data (Some True) (rnd (draws c));
             c = c\<lparr>draws := Suc (draws c)\<rparr>
         in (if connection c then write_conn c frame else c\<lparr>trace := trace c @ [Rejection]\<rparr>, data))
      else if opcode = 0x8 then
        (let c = c\<lparr>readyState := CLOSED\<rparr>
         in (if onClose c
             then c\<lparr>trace := trace c @ [OnClose (js_or (js_shl (num (at data 0)) 8) (num (at data 1)))]\<rparr>
             else c, data))
      else (close rnd c INVALID_OPCODE, data))"

text \<open>
  Modelled from the spec: \<open>concatenateUint8Arrays\<close>, whose file is not among the sources;
  the specification has the reassembler "concatenate the whole sequence in order into one
  buffer".
\<close>

definition concatenateUint8Arrays :: "byte list list \<Rightarrow> byte list" where
  "concatenateUint8Arrays arrays = concat arrays"

text \<open>
  \<open>read(conn)\<close> when the transport delivers the bytes \<open>chunk\<close> (at most 65536 of them,
  none at the end of the stream): \<open>data\<close> is the trimmed text of the bytes and \<open>buffer\<close>
  the whole array of 65536 bytes they were read into.
\<close>

definition read :: "byte list \<Rightarrow> jsstring \<times> byte list" where
  "read chunk =
     (trim (TextDecoder_decode chunk), chunk @ replicate (65536 - length chunk) 0)"

text \<open>
  The inner loop of \<open>listenForFrames\<close>, which decodes the frames of one read.
  \<open>dataLength\<close> is \<open>data.length\<close>, the bound of the loop; \<open>offset\<close> and the pending
  \<open>messageBuffer\<close> are the loop's variables. The loop need not end (a length field of
  eight bytes is read as a signed 32-bit number, and a negative one moves the offset
  back), so it runs on fuel and \<open>None\<close> means that the fuel ran out. A payload handed
  to \<open>handleFrame\<close> directly is a view of \<open>buffer\<close>, so what \<open>handleFrame\<close> leaves in it
  is stored back; the pending payloads are kept by value.
\<close>

fun decode_frames ::
  "nat \<Rightarrow> (nat \<Rightarrow> nat \<Rightarrow> byte) \<Rightarrow> nat \<Rightarrow> WebSpocketClient \<Rightarrow> byte list \<Rightarrow> int \<Rightarrow> byte list list
     \<Rightarrow> (WebSpocketClient \<times> byte list \<times> byte list list) option" where
  "decode_frames 0 rnd dataLength c buffer offset messageBuffer = None"
| "decode_frames (Suc fuel) rnd dataLength c buffer offset messageBuffer =
     (if offset < int dataLength then
        let fin = js_shr (js_and (num (at buffer offset)) 0x80) 7;
            opcode = js_and (num (at buffer offset)) 0x0f;
            mask = js_shr (js_and (num (at buffer (offset + 1))) 0x80) 7
        in if mask \<noteq> 0 then Some (close rnd c PROTOCOL_ERROR, buffer, messageBuffer)
           else
             let payloadLen = js_and (num (at buffer (offset + 1))) 0x7f;
                 offset = offset + 2;
                 longPayloadLen =
                   fold (\<lambda>i l. js_or (js_shl l 8) (num (at buffer (offset + int i)))) [0..<8] 0;
                 (payloadLen, offset) =
                   (if payloadLen = 126
                    then (js_or (js_shl (num (at buffer offset)) 8) (num (at buffer (offset + 1))),
                          offset + 2)
                    else if payloadLen = 127 then (longPayloadLen, offset + 8)
                    else (payloadLen, offset));
                 payload = subarray buffer offset (offset + payloadLen)
             in if fin \<noteq> 0 then
                  if length messageBuffer > 0 then
                    let messageBuffer = messageBuffer @ [payload];
                        completePayload = concatenateUint8Arrays messageBuffer;
                        c = fst (handleFrame rnd c opcode completePayload)
                    in decode_frames fuel rnd dataLength c buffer (offset + payloadLen) []
                  else
                    let (c, payload) = handleFrame rnd c opcode payload;
                        buffer = set_at buffer payload (subarray_begin buffer offset)
                    in decode_frames fuel rnd dataLength c buffer (offset + payloadLen) messageBuffer
                else decode_frames fuel rnd dataLength c buffer (offset + payloadLen)
                       (messageBuffer @ [payload])
      else Some (c, buffer, messageBuffer))"

text \<open>
  One turn of the outer loop of \<open>listenForFrames\<close>, entered while the state is
  \<open>CONNECTED\<close>: a read, the close with \<open>INTERNAL_ERROR\<close> when it brings no text, the
  frames otherwise.
\<close>

definition listenForFrames_read ::
  "nat \<Rightarrow> (nat \<Rightarrow> nat \<Rightarrow> byte) \<Rightarrow> WebSpocketClient \<Rightarrow> byte list \<Rightarrow> byte list list
     \<Rightarrow> (WebSpocketClient \<times> byte list \<times> byte list list) option" where
  "listenForFrames_read fuel rnd c chunk messageBuffer =
     (let (data, buffer) = read chunk
      in if data = [] then Some (close rnd c INTERNAL_ERROR, buffer, messageBuffer)
         else decode_frames fuel rnd (length data) c buffer 0 messageBuffer)"

section \<open>The opening handshake\<close>

text \<open>
  The two library functions of the accept-key check: \<open>encodeBase64\<close> of the standard
  library (RFC 4648, with padding) and the SHA-1 digest of \<open>crypto.subtle.digest\<close>
  (FIPS 180-4).
\<close>

definition base64_alphabet :: string where
  "base64_alphabet = ''ABCDEFGHIJKLMNOPQRSTUVWXYZabcdefghijklmnopqrstuvwxyz0123456789+/''"

definition base64_char :: "nat \<Rightarrow> nat" where
  "base64_char n = of_char (base64_alphabet ! n)"

fun encodeBase64 :: "byte list \<Rightarrow> jsstring" where
  "encodeBase64 [] = []"
| "encodeBase64 [a] =
     [base64_char (unat a div 4), base64_char (unat a mod 4 * 16), 0x3D, 0x3D]"
| "encodeBase64 [a, b] =
     [base64_char (unat a div 4), base64_char (unat a mod 4 * 16 + unat b div 16),
      base64_char (unat b mod 16 * 4), 0x3D]"
| "encodeBase64 (a # b # c # rest) =
     [base64_char (unat a div 4), base64_char (unat a mod 4 * 16 + unat b div 16),
      base64_char (unat b mod 16 * 4 + unat c div 64), base64_char (unat c mod 64)]
     @ encodeBase64 rest"

definition rotl :: "nat \<Rightarrow> 32 word \<Rightarrow> 32 word" where
  "rotl n w = push_bit n w OR drop_bit (32 - n) w"

definition sha1_pad :: "byte list \<Rightarrow> byte list" where
  "sha1_pad msg =
     msg @ [0x80] @ replicate ((119 - length msg mod 64) mod 64) 0
       @ map (\<lambda>i. of_nat (length msg * 8 div 256 ^ (7 - i))) [0..<8]"

fun sha1_words :: "byte list \<Rightarrow> 32 word list" where
  "sha1_words (a # b # c # d # rest) =
     (push_bit 24 (ucast a) OR push_bit 16 (ucast b) OR push_bit 8 (ucast c) OR ucast d)
     # sha1_words rest"
| "sha1_words _ = []"

definition sha1_f :: "nat \<Rightarrow> 32 word \<Rightarrow> 32 word \<Rightarrow> 32 word \<Rightarrow> 32 word" where
  "sha1_f t b c d =
     (if t < 20 then (b AND c) OR (NOT b AND d)
      else if t < 40 then b XOR c XOR d
      else if t < 60 then (b AND c) OR (b AND d) OR (c AND d)
      else b XOR c XOR d)"

definition sha1_k :: "nat \<Rightarrow> 32 word" where
  "sha1_k t =
     (if t < 20 then 0x5A827999 else if t < 40 then 0x6ED9EBA1
      else if t < 60 then 0x8F1BBCDC else 0xCA62C1D6)"

text \<open>
  One round: \<open>w\<close> holds the sixteen words of the message schedule from round \<open>t\<close> on.
\<close>

fun sha1_round ::
  "nat \<Rightarrow> (32 word list \<times> 32 word \<times> 32 word \<times> 32 word \<times> 32 word \<times> 32 word)
     \<Rightarrow> (32 word list \<times> 32 word \<times> 32 word \<times> 32 word \<times> 32 word \<times> 32 word)" where
  "sha1_round t (w, a, b, c, d, e) =
     (tl w @ [rotl 1 (w ! 13 XOR w ! 8 XOR w ! 2 XOR w ! 0)],
      rotl 5 a + sha1_f t b c d + e + sha1_k t + w ! 0, a, rotl 30 b, c, d)"

fun sha1_block :: "32 word list \<Rightarrow> 32 word list \<Rightarrow> 32 word list" where
  "sha1_block [h0, h1, h2, h3, h4] w =
     (case fold sha1_round [0..<80] (w, h0, h1, h2, h3, h4) of
        (_, a, b, c, d, e) \<Rightarrow> [h0 + a, h1 + b, h2 + c, h3 + d, h4 + e])"
| "sha1_block h w = h"

fun sha1_blocks :: "32 word list \<Rightarrow> 32 word list \<Rightarrow> 32 word list" where
  "sha1_blocks h ws = (if length ws < 16 then h else sha1_blocks (sha1_block h (take 16 ws)) (drop 16 ws))"

definition sha1 :: "byte list \<Rightarrow> byte list" where
  "sha1 msg =
     concat (map (\<lambda>x. [ucast (drop_bit 24 x), ucast (drop_bit 16 x), ucast (drop_bit 8 x), ucast x])
       (sha1_blocks [0x67452301, 0xEFCDAB89, 0x98BADCFE, 0x10325476, 0xC3D2E1F0]
          (sha1_words (sha1_pad msg))))"

text \<open>\<open>generateSecWebSocketKey\<close>: the base64 text of sixteen random bytes.\<close>

definition generateSecWebSocketKey :: "(nat \<Rightarrow> byte) \<Rightarrow> jsstring" where
  "generateSecWebSocketKey getRandomValues = encodeBase64 (map getRandomValues [0..<16])"

text \<open>
  \<open>s.split(separator)\<close> for a separator that is not empty (the client splits at
  \<open>"\r\n"\<close>, \<open>": "\<close> and \<open>" "\<close>), \<open>s.startsWith(p)\<close> and \<open>parts.join(separator)\<close>.
\<close>

fun js_split_from :: "'a list \<Rightarrow> 'a list \<Rightarrow> 'a list \<Rightarrow> 'a list list" where
  "js_split_from separator piece [] = [rev piece]"
| "js_split_from separator piece (x # xs) =
     (if separator \<noteq> [] \<and> take (length separator) (x # xs) = separator
      then rev piece # js_split_from separator [] (drop (length separator - 1) xs)
      else js_split_from separator (x # piece) xs)"

definition js_split :: "'a list \<Rightarrow> 'a list \<Rightarrow> 'a list list" where
  "js_split s separator = js_split_from separator [] s"

definition startsWith :: "'a list \<Rightarrow> 'a list \<Rightarrow> bool" where
  "startsWith s p \<longleftrightarrow> take (length p) s = p"

fun join :: "'a list list \<Rightarrow> 'a list \<Rightarrow> 'a list" where
  "join [] separator = []"
| "join [x] separator = x"
| "join (x # y # ys) separator = x @ separator @ join (y # ys) separator"

definition elem :: "'a list \<Rightarrow> nat \<Rightarrow> 'a option" where
  "elem xs i = (if i < length xs then Some (xs ! i) else None)"

definition CRLF :: jsstring where
  "CRLF = [0x0D, 0x0A]"

definition GUID :: jsstring where
  "GUID = str ''258EAFA5-E914-47DA-95CA-C5AB0DC85B11''"

text \<open>
  The array \<open>checks\<close> of \<open>connect\<close> starts empty and is only ever assigned at an
  index: it is a sparse array, a list whose holes are \<open>None\<close>. \<open>checks.filter(f)\<close>
  calls \<open>f\<close> on the elements that exist and skips the holes.
\<close>

definition sparse_set :: "bool option list \<Rightarrow> nat \<Rightarrow> bool \<Rightarrow> bool option list" where
  "sparse_set a i v = (a @ replicate (Suc i - length a) None)[i := Some v]"

fun sparse_filter :: "(bool \<Rightarrow> bool) \<Rightarrow> bool option list \<Rightarrow> bool list" where
  "sparse_filter f [] = []"
| "sparse_filter f (None # a) = sparse_filter f a"
| "sparse_filter f (Some v # a) = (if f v then v # sparse_filter f a else sparse_filter f a)"

text \<open>
  The body of the loop of \<open>connect\<close> for one line of the response that is not empty,
  and the loop. \<open>field[1].trim()\<close> throws a \<open>TypeError\<close> when the line has no
  \<open>": "\<close>.
\<close>

definition connect_check_line :: "jsstring \<Rightarrow> jsstring \<Rightarrow> bool option list \<Rightarrow> js_error + bool option list" where
  "connect_check_line key line checks =
     (let field = js_split line (str '': '');
          field0 = hd field;
          field1 = elem field 1;
          checks =
            (if startsWith field0 (str ''HTTP/1.1'') \<and> elem (js_split field0 (str '' '')) 1 = Some (str ''101'')
             then sparse_set checks 0 True else checks);
          checks =
            (if field0 = str ''sec-websocket-accept''
                \<and> Some (encodeBase64 (sha1 (TextEncoder_encode (key @ GUID)))) = field1
             then sparse_set checks 1 True else checks)
      in if field0 = str ''connection'' \<and> field1 = None then Inl TypeError
         else
           let checks =
                 (if field0 = str ''connection'' \<and> map_option trim field1 = Some (str ''Upgrade'')
                  then sparse_set checks 2 True else checks)
           in if field0 = str ''upgrade'' \<and> field1 = None then Inl TypeError
              else
                Inr (if field0 = str ''upgrade'' \<and> map_option trim field1 = Some (str ''websocket'')
                     then sparse_set checks 3 True else checks))"

fun connect_checks :: "jsstring \<Rightarrow> jsstring list \<Rightarrow> bool option list \<Rightarrow> js_error + bool option list" where
  "connect_checks key [] checks = Inr checks"
| "connect_checks key (line # response) checks =
     (if line = [] then connect_checks key response checks
      else case connect_check_line key line checks of
             Inl e \<Rightarrow> Inl e
           | Inr checks \<Rightarrow> connect_checks key response checks)"

text \<open>
  \<open>connect\<close>, for a transport that opens and whose first read brings the bytes \<open>chunk\<close>.
  The frames that follow are read by \<open>listenForFrames\<close>, which \<open>connect\<close> starts
  without awaiting it; it is rejected at once when the connection is not there.
\<close>

definition request_lines :: "WebSpocketClient \<Rightarrow> jsstring \<Rightarrow> jsstring list" where
  "request_lines c key =
     [str ''GET '' @ pathname (url c) @ str '' HTTP/1.1'',
      str ''host: '' @ hostname (url c),
      str ''origin: '' @ origin (url c),
      str ''user-agent: WebSpocket/1.0.0'',
      str ''upgrade: websocket'',
      str ''connection: Upgrade'',
      str ''sec-websocket-key: '' @ key,
      str ''sec-websocket-version: 13'']
     @ (case protocols c of None \<Rightarrow> [] | Some ps \<Rightarrow> [str ''sec-websocket-protocol: '' @ join ps (str '', '')])
     @ (case extensions c of None \<Rightarrow> [] | Some es \<Rightarrow> [str ''sec-websocket-extensions: '' @ join es (str '', '')])
     @ (case headers c of None \<Rightarrow> [] | Some hs \<Rightarrow> map (\<lambda>(k, v). k @ str '': '' @ v) hs)
     @ [CRLF]"

definition connect ::
  "(nat \<Rightarrow> nat \<Rightarrow> byte) \<Rightarrow> WebSpocketClient \<Rightarrow> byte list \<Rightarrow> js_error + WebSpocketClient" where
  "connect rnd c chunk =
     (let c = c\<lparr>readyState := CONNECTING\<rparr>;
          key = generateSecWebSocketKey (rnd (draws c));
          c = c\<lparr>draws := Suc (draws c)\<rparr>;
          c = write_conn c (TextEncoder_encode (join (request_lines c key) CRLF));
          response = butlast (js_split (fst (read chunk)) CRLF)
      in case connect_checks key response [] of
           Inl e \<Rightarrow> Inl e
         | Inr checks \<Rightarrow>
             let c = (if length (sparse_filter (\<lambda>check. \<not> check) checks) = 0
                      then c\<lparr>readyState := CONNECTED, connection := True\<rparr>
                      else c\<lparr>readyState := CLOSED\<rparr>);
                 c = (if connection c then c else c\<lparr>trace := trace c @ [Rejection]\<rparr>)
             in Inr (if onReady c then c\<lparr>trace := trace c @ [OnReady]\<rparr> else c))"

section \<open>Observations and the inputs of the examples\<close>

text \<open>The payload of a masked frame: byte \<open>i\<close> XORed with \<open>key[i mod 4]\<close>.\<close>

definition xor_mask :: "byte list \<Rightarrow> byte list \<Rightarrow> byte list" where
  "xor_mask data k = map (\<lambda>i. (data ! i) XOR (k ! (i mod 4))) [0..<length data]"

fun is_callback :: "effect \<Rightarrow> bool" where
  "is_callback OnReady = True"
| "is_callback (OnMessage m) = True"
| "is_callback (OnClose e) = True"
| "is_callback _ = False"

fun is_OnClose :: "effect \<Rightarrow> bool" where
  "is_OnClose (OnClose e) = True"
| "is_OnClose _ = False"

fun is_Write :: "effect \<Rightarrow> bool" where
  "is_Write (Write bytes) = True"
| "is_Write _ = False"

text \<open>What a run of the receive loop shows: the state, the effects, the pending payloads.\<close>

fun observe ::
  "(WebSpocketClient \<times> byte list \<times> byte list list) option
     \<Rightarrow> (ReadyState \<times> effect list \<times> byte list list) option" where
  "observe None = None"
| "observe (Some (c, buffer, messageBuffer)) = Some (readyState c, trace c, messageBuffer)"

text \<open>
  A random source for the examples: every call of \<open>crypto.getRandomValues\<close> yields
  the bytes of \<open>the sample nonce\<close>, whose base64 text is the key of the worked example
  of RFC 6455.
\<close>

definition rnd0 :: "nat \<Rightarrow> nat \<Rightarrow> byte" where
  "rnd0 k i =
     [0x74, 0x68, 0x65, 0x20, 0x73, 0x61, 0x6D, 0x70, 0x6C, 0x65, 0x20, 0x6E, 0x6F, 0x6E, 0x63, 0x65]
       ! (i mod 16)"

definition url0 :: URL where
  "url0 = \<lparr>protocol = str ''ws:'', hostname = str ''example.com'', port = [],
           pathname = str ''/chat'', origin = str ''ws://example.com''\<rparr>"

definition new_URL0 :: "jsstring \<Rightarrow> URL option" where
  "new_URL0 s = (if s = str ''ws://example.com/chat'' then Some url0 else None)"

definition options0 :: ConnectionOptions where
  "options0 =
     \<lparr>ConnectionOptions.url = str ''ws://example.com/chat'', ConnectionOptions.headers = None,
      ConnectionOptions.protocols = None, ConnectionOptions.extensions = None\<rparr>"

text \<open>The client that \<open>new WebSpocketClient(options0)\<close> builds.\<close>

definition client_new :: WebSpocketClient where
  "client_new =
     \<lparr>url = url0, protocols = None, headers = None, extensions = None,
      readyState = CLOSED, connection = False,
      onReady = False, onMessage = False, onError = False, onClose = False,
      trace = [], pending = [], draws = 0\<rparr>"

text \<open>A connected client with all four handlers assigned and nothing done yet.\<close>

definition client0 :: WebSpocketClient where
  "client0 =
     client_new\<lparr>readyState := CONNECTED, connection := True,
                onReady := True, onMessage := True, onError := True, onClose := True\<rparr>"

text \<open>The outcome of \<open>connect\<close>: the error thrown, or the state and whether the connection is held.\<close>

fun connect_outcome :: "js_error + WebSpocketClient \<Rightarrow> js_error + ReadyState \<times> bool" where
  "connect_outcome (Inl e) = Inl e"
| "connect_outcome (Inr c) = Inr (readyState c, connection c)"

text \<open>
  Two answers of a server to the handshake with the key of \<open>rnd0\<close>: a 101 response whose
  \<open>sec-websocket-accept\<close> is not the value the key calls for, and a 400 response.
\<close>

definition wrong_accept_response :: "byte list" where
  "wrong_accept_response =
     TextEncoder_encode
       (str ''HTTP/1.1 101 Switching Protocols'' @ CRLF
        @ str ''upgrade: websocket'' @ CRLF
        @ str ''connection: Upgrade'' @ CRLF
        @ str ''sec-websocket-accept: AAAAAAAAAAAAAAAAAAAAAAAAAAA='' @ CRLF
        @ str ''server: example'' @ CRLF @ CRLF)"

definition bad_request_response :: "byte list" where
  "bad_request_response =
     TextEncoder_encode (str ''HTTP/1.1 400 Bad Request'' @ CRLF @ str ''content-length: 0'' @ CRLF @ CRLF)"

text \<open>
  The bytes of one read that hold the three fragments \<open>He\<close>, \<open>ll\<close>, \<open>o\<close> of a text
  message (opcodes 1, 0, 0 with FIN only on the last), the buffer they are read into and
  the text \<open>read\<close> returns for them.
\<close>

definition hello_fragments :: "byte list" where
  "hello_fragments = [0x01, 0x02, 0x48, 0x65, 0x00, 0x02, 0x6C, 0x6C, 0x80, 0x01, 0x6F]"

definition hello_buffer :: "byte list" where
  "hello_buffer = hello_fragments @ replicate 65525 0"

definition hello_data :: jsstring where
  "hello_data = [0x01, 0x02, 0x48, 0x65, 0x00, 0x02, 0x6C, 0x6C, 0xFFFD, 0x01, 0x6F]"

text \<open>A payload of \<open>2 ^ 32 + 1\<close> bytes and the unmasked binary frame of it.\<close>

definition huge_payload :: "byte list" where
  "huge_payload = [0x00, 0x00, 0x80] @ replicate 4294967294 0"

definition huge_frame :: "byte list" where
  "huge_frame = [0x82, 0x7F, 0, 0, 0, 1, 0, 0, 0, 1] @ huge_payload"

text \<open>An unfragmented text frame \<open>Hello\<close>.\<close>

definition hello_frame :: "byte list" where
  "hello_frame = [0x81, 0x05, 0x48, 0x65, 0x6C, 0x6C, 0x6F]"

text \<open>The invariant of the array \<open>checks\<close>: every element that exists is \<open>true\<close>.\<close>

definition only_true :: "bool option list \<Rightarrow> bool" where
  "only_true a \<longleftrightarrow> (\<forall>x\<in>set a. x = None \<or> x = Some True)"

text \<open>The padded message of the SHA-1 of the sample key followed by the GUID, as 32-bit words.\<close>

definition sample_words :: "32 word list" where
  "sample_words = [1682401388, 1229475432, 1649951347, 1515405941, 1647457642, 1515273533,
     842348613, 1095123253, 759511345, 875377719, 1145122105, 893600045,
     1127563586, 809780024, 893530417, 2147483648, 0, 0, 0, 0, 0, 0, 0, 0,
     0, 0, 0, 0, 0, 0, 0, 480]"

text \<open>
  The bytes of one read that hold an unmasked text frame of six euro signs (18 payload
  bytes) followed by the masked text frame \<open>Hello\<close> of RFC 6455, the buffer they are read
  into and the text \<open>read\<close> returns for them.
\<close>

definition euro_then_masked :: "byte list" where
  "euro_then_masked =
     [0x81, 0x12, 0xE2, 0x82, 0xAC, 0xE2, 0x82, 0xAC, 0xE2, 0x82, 0xAC,
      0xE2, 0x82, 0xAC, 0xE2, 0x82, 0xAC, 0xE2, 0x82, 0xAC,
      0x81, 0x85, 0x37, 0xFA, 0x21, 0x3D, 0x7F, 0x9F, 0x4D, 0x51, 0x58]"

definition euro_buffer :: "byte list" where
  "euro_buffer = euro_then_masked @ replicate 65505 0"

definition euro_data :: jsstring where
  "euro_data =
     [0xFFFD, 0x12, 0x20AC, 0x20AC, 0x20AC, 0x20AC, 0x20AC, 0x20AC,
      0xFFFD, 0xFFFD, 0x37, 0xFFFD, 0x21, 0x3D, 0x7F, 0xFFFD, 0x4D, 0x51, 0x58]"

text \<open>
  Where a frame's header says its payload starts, in the words of the specification's
  Decode: after the two header bytes, after the 2 or 8 bytes of an extended length when
  the length field of byte 1 is 126 or 127, and after the 4 bytes of the masking key when
  the mask bit of byte 1 is set.
\<close>

definition announced_payload_offset :: "byte list \<Rightarrow> nat" where
  "announced_payload_offset frame =
     2 + (if unat (frame ! 1) mod 128 = 126 then 2
          else if unat (frame ! 1) mod 128 = 127 then 8 else 0)
       + (if bit (frame ! 1) 7 then 4 else 0)"

section \<open>Facts about the bitwise operators\<close>

lemma js_and_int: "js_and a b = signed_take_bit 31 a AND signed_take_bit 31 b"
  by (simp add: js_and_def ToInt32_def signed_and_eq signed_of_int)

lemma js_or_int: "js_or a b = signed_take_bit 31 a OR signed_take_bit 31 b"
  by (simp add: js_or_def ToInt32_def signed_or_eq signed_of_int)

lemma js_shr_int: "js_shr a n = drop_bit (n mod 32) (signed_take_bit 31 a)"
  by (simp add: js_shr_def ToInt32_def sint_signed_drop_bit_eq signed_of_int)


lemma int32_id: "0 \<le> x \<Longrightarrow> x < 2147483648 \<Longrightarrow> signed_take_bit 31 x = (x :: int)"
  by (rule signed_take_bit_int_eq_self) auto

lemma uint_byte_int32: "signed_take_bit 31 (uint (b :: byte)) = uint b"
proof -
  have "uint b < 256" using uint_lt2p[of b] by simp
  then show ?thesis by (intro int32_id) auto
qed

lemma drop_7_and_1: "drop_bit 7 (uint (b::byte)) AND 1 = (if bit b 7 then 1 else 0)"
proof -
  have "drop_bit 7 (uint b) AND 1 = of_bool (bit (uint b) 7)"
    by (simp add: and_one_eq bit_iff_odd_drop_bit odd_iff_mod_2_eq_one)
  then show ?thesis by (simp add: bit_uint_iff)
qed

lemma mask_bit: "js_shr (js_and (uint (b::byte)) 0x80) 7 = (if bit b 7 then 1 else 0)"
proof -
  have r: "0 \<le> uint b AND 128" "uint b AND 128 < 2147483648"
    using AND_upper2[of 128 "uint b"] by auto
  show ?thesis
    by (simp add: js_shr_int js_and_int uint_byte_int32 int32_id r drop_7_and_1)
qed


lemma small_length_byte: "n \<le> 125 \<Longrightarrow> ToUint8 (js_or 0 (int n)) = of_nat n"
  by (simp add: js_or_int int32_id ToUint8_def)

lemma small_length_bit7: "n \<le> 125 \<Longrightarrow> \<not> bit (of_nat n :: byte) 7"
proof -
  assume n: "n \<le> 125"
  then have "\<not> bit n 7" by (simp add: bit_iff_odd)
  then show ?thesis by (simp add: bit_of_nat_iff)
qed

lemma or_128: "n \<le> 125 \<Longrightarrow> ToUint8 (js_or 128 (int n)) = of_nat (128 + n)"
proof -
  assume n: "n \<le> 125"
  then have "\<not> bit (int n) 7" by (simp add: bit_iff_odd)
  then have "(128::int) AND int n = 0"
    using and_exp_eq_0_iff_not_bit[of "int n" 7] by (simp add: and.commute)
  then have "(128::int) OR int n = 128 + int n"
    by (simp add: disjunctive_add_eq_or)
  then show ?thesis using n
    by (simp add: js_or_int int32_id ToUint8_def)
qed

section \<open>The shape of the frames \<open>FrameGenerator\<close> builds\<close>

lemma replicate_num: "replicate (numeral k) x = x # replicate (pred_numeral k) x"
  by (simp add: numeral_eq_Suc)

lemma list_update_num: "(x # xs)[numeral k := v] = x # xs[pred_numeral k := v]"
  by (simp add: numeral_eq_Suc)

lemma upt_0_4: "[0..<4] = [0, 1, 2, 3]"
  by (simp add: upt_rec[of _ 4])

lemma upt_0_8: "[0..<8] = [0, 1, 2, 3, 4, 5, 6, 7]"
  by (simp add: upt_rec[of _ 8])

lemma FG_omitted_small:
  "length data \<le> 125 \<Longrightarrow> FrameGenerator opcode data None r =
     ([ToUint8 (js_or 0x80 opcode), of_nat (length data), r 0, r 1, r 2, r 3] @ data, data)"
  by (simp add: FrameGenerator_def Let_def replicate_num list_update_num upt_0_4 set_at_def
      small_length_byte)

lemma FG_omitted_medium:
  "125 < length data \<Longrightarrow> length data \<le> 65535 \<Longrightarrow> FrameGenerator opcode data None r =
     ([ToUint8 (js_or 0x80 opcode), 126, r 0, r 1, r 2, r 3, 0, 0] @ data, data)"
  by (simp add: FrameGenerator_def Let_def replicate_num list_update_num upt_0_4 set_at_def
      js_or_int ToUint8_def)

lemma FG_omitted_large:
  "65535 < length data \<Longrightarrow> FrameGenerator opcode data None r =
     ([ToUint8 (js_or 0x80 opcode), 127, r 0, r 1, r 2, r 3,
       ToUint8 (js_and (js_shr (int (length data)) 24) 0xff),
       ToUint8 (js_and (js_shr (int (length data)) 16) 0xff),
       ToUint8 (js_and (js_shr (int (length data)) 8) 0xff),
       ToUint8 (js_and (js_shr (int (length data)) 0) 0xff), 0, 0, 0, 0] @ data, data)"
  by (simp add: FrameGenerator_def Let_def replicate_num list_update_num upt_0_4 upt_0_8 set_at_def
      js_or_int js_shr_int ToUint8_def)

lemma FG_masked_small:
  "length data \<le> 125 \<Longrightarrow> FrameGenerator opcode data (Some True) r =
     ([ToUint8 (js_or 0x80 opcode), of_nat (128 + length data), r 0, r 1, r 2, r 3]
        @ xor_mask data [r 0, r 1, r 2, r 3], xor_mask data [r 0, r 1, r 2, r 3])"
  by (simp add: FrameGenerator_def Let_def replicate_num list_update_num upt_0_4 set_at_def
      or_128 xor_mask_def)

lemma FG_masked_medium:
  "125 < length data \<Longrightarrow> length data \<le> 65535 \<Longrightarrow> FrameGenerator opcode data (Some True) r =
     ([ToUint8 (js_or 0x80 opcode), 0xFE, r 0, r 1, r 2, r 3, 0, 0]
        @ xor_mask data [r 0, r 1, r 2, r 3], xor_mask data [r 0, r 1, r 2, r 3])"
  by (simp add: FrameGenerator_def Let_def replicate_num list_update_num upt_0_4 set_at_def
      js_or_int ToUint8_def xor_mask_def)

lemma spec_Encode_masked_small:
  "length payload \<le> 125 \<Longrightarrow> spec_Encode opcode payload True k =
     [of_nat (128 + opcode mod 16), of_nat (128 + length payload)] @ k @ xor_mask payload k"
  by (simp add: spec_Encode_def xor_mask_def Let_def)

lemma FG_unmasked_small:
  "length data \<le> 125 \<Longrightarrow> FrameGenerator opcode data (Some False) r =
     ([ToUint8 (js_or 0x80 opcode), of_nat (length data)] @ data, data)"
  by (simp add: FrameGenerator_def Let_def replicate_num list_update_num small_length_byte)

lemma FG_unmasked_medium:
  "125 < length data \<Longrightarrow> length data \<le> 65535 \<Longrightarrow> FrameGenerator opcode data (Some False) r =
     ([ToUint8 (js_or 0x80 opcode), 126,
       ToUint8 (js_and (js_shr (int (length data)) 8) 0xff),
       ToUint8 (js_and (int (length data)) 0xff)] @ data, data)"
  by (simp add: FrameGenerator_def Let_def replicate_num list_update_num js_or_int ToUint8_def)

lemma FG_unmasked_large:
  "65535 < length data \<Longrightarrow> FrameGenerator opcode data (Some False) r =
     ([ToUint8 (js_or 0x80 opcode), 127,
       ToUint8 (js_and (js_shr (int (length data)) 24) 0xff),
       ToUint8 (js_and (js_shr (int (length data)) 16) 0xff),
       ToUint8 (js_and (js_shr (int (length data)) 8) 0xff),
       ToUint8 (js_and (js_shr (int (length data)) 0) 0xff),
       ToUint8 (js_and (js_shr (int (length data)) 24) 0xff),
       ToUint8 (js_and (js_shr (int (length data)) 16) 0xff),
       ToUint8 (js_and (js_shr (int (length data)) 8) 0xff),
       ToUint8 (js_and (js_shr (int (length data)) 0) 0xff)] @ data, data)"
  by (simp add: FrameGenerator_def Let_def replicate_num list_update_num upt_0_8
      js_or_int js_shr_int ToUint8_def)

lemma spec_Encode_masked_medium:
  "125 < length payload \<Longrightarrow> length payload \<le> 65535 \<Longrightarrow> spec_Encode opcode payload True k =
     [of_nat (128 + opcode mod 16), 0xFE] @ big_endian 2 (length payload) @ k @ xor_mask payload k"
  by (simp add: spec_Encode_def xor_mask_def Let_def)

lemma spec_Encode_unmasked_large:
  "65535 < length payload \<Longrightarrow> spec_Encode opcode payload False k =
     [of_nat (128 + opcode mod 16), 0x7F] @ big_endian 8 (length payload) @ payload"
  by (simp add: spec_Encode_def Let_def)

text \<open>Masking twice with the same key gives the payload back.\<close>

lemma xor_mask_twice: "xor_mask (xor_mask P k) k = P"
  by (rule nth_equalityI) (simp_all add: xor_mask_def xor.assoc)

section \<open>Facts about \<open>close\<close>\<close>

lemma close_frame_spec:
  "fst (FrameGenerator 0x8 [a, b] (Some True) r) = spec_Encode 0x8 [a, b] True (map r [0..<4])"
  by (simp add: FG_masked_small spec_Encode_masked_small upt_0_4 js_or_def ToInt32_def ToUint8_def)

lemma close_open:
  "readyState c \<noteq> CLOSED \<Longrightarrow> readyState c \<noteq> CLOSING \<Longrightarrow> connection c \<Longrightarrow>
   close rnd c e =
     c\<lparr>readyState := CLOSING, draws := Suc (draws c),
       trace := trace c @ [Write (spec_Encode 0x8
                  [ToUint8 (js_and (js_shr e 8) 0xFF), ToUint8 (js_and e 0xFF)] True
                  (map (rnd (draws c)) [0..<4]))],
       pending := pending c @ [CloseDone], connection := False\<rparr>"
  by (simp add: close_def Let_def write_conn_def close_frame_spec)

lemma close_closed:
  "readyState c = CLOSED \<or> readyState c = CLOSING \<Longrightarrow> close rnd c e = c"
  by (auto simp: close_def)

lemma close_callbacks:
  "filter is_callback (trace (close rnd c e)) = filter is_callback (trace c)"
  by (simp add: close_def Let_def write_conn_def)

lemma close_OnClose:
  "filter is_OnClose (trace (close rnd c e)) = filter is_OnClose (trace c)"
  by (simp add: close_def Let_def write_conn_def)

lemma fold_resume_SendDone:
  "set ps \<subseteq> {SendDone} \<Longrightarrow>
   trace (fold resume ps c) = trace c \<and> pending (fold resume ps c) = pending c
   \<and> connection (fold resume ps c) = connection c"
  by (induction ps arbitrary: c) auto

lemma constructor_options0: "constructor new_URL0 options0 = Inr client_new"
  by (simp add: constructor_def new_URL0_def options0_def client_new_def url0_def str_def)

section \<open>Running the receive loop on given bytes\<close>

lemma at_Nil: "at [] i = None"
  by (simp add: at_def)

lemma at_Cons: "at (x # xs) i = (if i = 0 then Some x else if i < 0 then None else at xs (i - 1))"
  by (auto simp: at_def nat_diff_distrib' nth_Cons')

lemmas js_eval = js_or_def js_and_def js_shr_def js_shl_def ToInt32_def ToUint8_def

text \<open>
  \<open>handleFrame\<close> with the opcode 0 of a continuation frame falls to the default branch.
\<close>

lemma handleFrame_continuation:
  "handleFrame rnd c 0x0 data = (close rnd c INVALID_OPCODE, data)"
  by (simp add: handleFrame_def)

text \<open>A Ping of at most 125 bytes is answered by the masked Pong of the same payload.\<close>

lemma ping_small:
  "length P \<le> 125 \<Longrightarrow> connection c \<Longrightarrow>
   handleFrame rnd c 0x9 P =
     (c\<lparr>draws := Suc (draws c),
        trace := trace c @ [Write (spec_Encode 0xA P True (map (rnd (draws c)) [0..<4]))]\<rparr>,
      xor_mask P (map (rnd (draws c)) [0..<4]))"
  by (simp add: handleFrame_def FG_masked_small spec_Encode_masked_small write_conn_def upt_0_4
      js_or_def ToInt32_def ToUint8_def)

lemma ping_abc:
  "handleFrame rnd0 client0 0x9 [0x61, 0x62, 0x63] =
     (client0\<lparr>draws := 1, trace := [Write [0x8A, 0x83, 0x74, 0x68, 0x65, 0x20, 0x15, 0x0A, 0x06]]\<rparr>,
      [0x15, 0x0A, 0x06])"
  by (simp add: ping_small spec_Encode_masked_small xor_mask_def client0_def client_new_def rnd0_def
      upt_0_4 upt_rec[of _ 3])

text \<open>An unfragmented text frame is handed to \<open>onMessage\<close> as a text message.\<close>

lemma read_hello_frame:
  "read hello_frame = ([0xFFFD, 0x05, 0x48, 0x65, 0x6C, 0x6C, 0x6F], hello_frame @ replicate 65529 0)"
  by (simp add: read_def TextDecoder_decode_def utf16_units_def trim_def js_whitespace_def
      hello_frame_def)

lemma single_text_frame:
  "observe (listenForFrames_read (Suc (Suc 0)) rnd0 client0 hello_frame [])
     = Some (CONNECTED, [OnMessage (Message (String (str ''Hello'')) TEXT)], [])"
  apply (simp add: listenForFrames_read_def read_hello_frame del: decode_frames.simps)
  apply (subst decode_frames.simps(2))
  apply (simp add: hello_frame_def at_Cons subarray_def subarray_begin_def set_at_def
      num_def js_eval Let_def handleFrame_def client0_def client_new_def
      TextDecoder_decode_def utf16_units_def str_def
      del: decode_frames.simps split del: if_split)
  apply (subst decode_frames.simps(2))
  apply simp
  done

text \<open>The three fragments of \<open>Hello\<close>, frame by frame.\<close>

lemma read_hello: "read hello_fragments = (hello_data, hello_buffer)"
  by (simp add: read_def TextDecoder_decode_def utf16_units_def trim_def js_whitespace_def
      hello_data_def hello_buffer_def hello_fragments_def)

lemma hello_data_length: "length hello_data = 11" "hello_data \<noteq> []"
  by (simp_all add: hello_data_def)

lemma close_invalid_opcode_client0:
  "close rnd0 client0 INVALID_OPCODE =
     client0\<lparr>readyState := CLOSING, draws := Suc 0,
       trace := [Write [0x88, 0x82, 0x74, 0x68, 0x65, 0x20, 0x77, 0x83]],
       pending := [CloseDone], connection := False\<rparr>"
  by (simp add: close_open INVALID_OPCODE_def client0_def client_new_def spec_Encode_masked_small
      xor_mask_def upt_0_4 rnd0_def js_eval upt_rec[of _ 2])

lemma hello_step1:
  "decode_frames (Suc fuel) rnd0 11 client0 hello_buffer 0 []
   = decode_frames fuel rnd0 11 client0 hello_buffer 4 [[0x48, 0x65]]"
  apply (subst decode_frames.simps(2))
  apply (simp add: hello_buffer_def hello_fragments_def at_Cons subarray_def num_def js_eval Let_def
      del: decode_frames.simps split del: if_split)
  done

lemma hello_step2:
  "decode_frames (Suc fuel) rnd0 11 client0 hello_buffer 4 [[0x48, 0x65]]
   = decode_frames fuel rnd0 11 client0 hello_buffer 8 [[0x48, 0x65], [0x6C, 0x6C]]"
  apply (subst decode_frames.simps(2))
  apply (simp add: hello_buffer_def hello_fragments_def at_Cons subarray_def num_def js_eval Let_def
      del: decode_frames.simps split del: if_split)
  done

lemma hello_step3:
  "decode_frames (Suc fuel) rnd0 11 client0 hello_buffer 8 [[0x48, 0x65], [0x6C, 0x6C]]
   = decode_frames fuel rnd0 11
       (fst (handleFrame rnd0 client0 0x0 [0x48, 0x65, 0x6C, 0x6C, 0x6F])) hello_buffer 11 []"
  apply (subst decode_frames.simps(2))
  apply (simp add: hello_buffer_def hello_fragments_def at_Cons subarray_def num_def js_eval Let_def
      concatenateUint8Arrays_def
      del: decode_frames.simps split del: if_split)
  done

lemma hello_step4:
  "decode_frames (Suc fuel) rnd0 11 c hello_buffer 11 [] = Some (c, hello_buffer, [])"
  by (subst decode_frames.simps(2)) simp

text \<open>The frame of \<open>2 ^ 32 + 1\<close> bytes, frame by frame.\<close>

lemma huge_payload_length: "length huge_payload = 4294967297"
  by (simp add: huge_payload_def)

lemma huge_frame_encoded: "fst (FrameGenerator 0x2 huge_payload (Some False) r) = huge_frame"
  by (simp add: FG_unmasked_large huge_payload_length huge_frame_def js_eval)

lemma huge_frame_length: "length huge_frame = 4294967307"
  by (simp add: huge_frame_def huge_payload_def)

lemma huge_step1:
  "decode_frames (Suc fuel) rnd0 4294967307 client0 huge_frame 0 []
   = decode_frames fuel rnd0 4294967307
       (client0\<lparr>trace := [OnMessage (Message (Uint8Array [0x00]) BINARY)]\<rparr>) huge_frame 11 []"
  apply (subst decode_frames.simps(2))
  apply (simp add: huge_frame_def huge_payload_def at_Cons subarray_def subarray_begin_def set_at_def
      num_def js_eval Let_def upt_0_8 handleFrame_def client0_def client_new_def
      del: decode_frames.simps split del: if_split)
  done

lemma huge_step2:
  "decode_frames (Suc fuel) rnd0 4294967307 c huge_frame 11 []
   = Some (close rnd0 c PROTOCOL_ERROR, huge_frame, [])"
  apply (subst decode_frames.simps(2))
  apply (simp add: huge_frame_def huge_payload_def at_Cons num_def js_eval Let_def
      del: decode_frames.simps split del: if_split)
  done

text \<open>The euro frame followed by the masked frame, frame by frame.\<close>

lemma read_euro: "read euro_then_masked = (euro_data, euro_buffer)"
  by (simp add: read_def TextDecoder_decode_def utf16_units_def trim_def js_whitespace_def
      euro_data_def euro_buffer_def euro_then_masked_def)

lemma euro_data_length: "length euro_data = 19" "euro_data \<noteq> []"
  by (simp_all add: euro_data_def)

lemma euro_step1:
  "decode_frames (Suc fuel) rnd0 19 client0 euro_buffer 0 []
   = decode_frames fuel rnd0 19
       (client0\<lparr>trace :=
          [OnMessage (Message (String [0x20AC, 0x20AC, 0x20AC, 0x20AC, 0x20AC, 0x20AC]) TEXT)]\<rparr>)
       euro_buffer 20 []"
  apply (subst decode_frames.simps(2))
  apply (simp add: euro_buffer_def euro_then_masked_def at_Cons subarray_def subarray_begin_def
      set_at_def num_def js_eval Let_def handleFrame_def client0_def client_new_def
      TextDecoder_decode_def utf16_units_def
      del: decode_frames.simps split del: if_split)
  done

lemma euro_step2:
  "decode_frames (Suc fuel) rnd0 19 c euro_buffer 20 [] = Some (c, euro_buffer, [])"
  by (subst decode_frames.simps(2)) simp

section \<open>The accept value of the sample key\<close>

lemma upt_0_numeral: "[0..<numeral (num.Bit0 k)] = 0 # Suc 0 # [2..<numeral (num.Bit0 k)]"
proof -
  have "Suc 0 < numeral (num.Bit0 k)"
    by (simp add: numeral_eq_Suc)
  then show ?thesis
    by (simp add: upt_rec[of 0] upt_rec[of "Suc 0"] numeral_2_eq_2)
qed

lemma sample_key: "generateSecWebSocketKey (rnd0 k) = str ''dGhlIHNhbXBsZSBub25jZQ==''"
  by (simp add: generateSecWebSocketKey_def upt_0_numeral rnd0_def base64_char_def
      base64_alphabet_def str_def)

lemma sample_message_words:
  "sha1_words (sha1_pad (TextEncoder_encode (str ''dGhlIHNhbXBsZSBub25jZQ=='' @ GUID))) = sample_words"
  by (simp add: TextEncoder_encode_def str_def GUID_def utf8_bytes_def sha1_pad_def replicate_num
      upt_0_8 sample_words_def)

lemma sample_block1:
  "sha1_block [0x67452301, 0xEFCDAB89, 0x98BADCFE, 0x10325476, 0xC3D2E1F0] (take 16 sample_words)
     = [1540323111, 1931952490, 3195796473, 1517820024, 1581688034]"
  by (simp add: sample_words_def sha1_f_def sha1_k_def rotl_def upt_0_numeral)

lemma sample_block2:
  "sha1_block [1540323111, 1931952490, 3195796473, 1517820024, 1581688034]
     (take 16 (drop 16 sample_words))
     = [3011137324, 3227668246, 2432058886, 3476576581, 2998846698]"
  by (simp add: sample_words_def sha1_f_def sha1_k_def rotl_def upt_0_numeral)

lemma sample_blocks:
  "sha1_blocks [0x67452301, 0xEFCDAB89, 0x98BADCFE, 0x10325476, 0xC3D2E1F0] sample_words
     = [3011137324, 3227668246, 2432058886, 3476576581, 2998846698]"
proof -
  have l: "length sample_words = 32" by (simp add: sample_words_def)
  show ?thesis
    apply (subst sha1_blocks.simps)
    apply (simp only: l sample_block1)
    apply (subst sha1_blocks.simps)
    apply (simp only: length_drop l sample_block2)
    apply (subst sha1_blocks.simps)
    apply (simp add: l)
    done
qed

text \<open>
  The worked example of RFC 6455: for the key \<open>dGhlIHNhbXBsZSBub25jZQ==\<close> the client
  computes the accept value \<open>s3pPLMBiTxaQ9kYGzzhZRbK+xOo=\<close>.
\<close>

lemma accept_value:
  "encodeBase64 (sha1 (TextEncoder_encode (str ''dGhlIHNhbXBsZSBub25jZQ=='' @ GUID)))
     = str ''s3pPLMBiTxaQ9kYGzzhZRbK+xOo=''"
  unfolding sha1_def sample_message_words sample_blocks
  by (simp add: base64_char_def base64_alphabet_def str_def)

section \<open>The checks of the handshake\<close>

lemma wrong_accept_lines:
  "butlast (js_split (fst (read wrong_accept_response)) CRLF) =
     [str ''HTTP/1.1 101 Switching Protocols'', str ''upgrade: websocket'', str ''connection: Upgrade'',
      str ''sec-websocket-accept: AAAAAAAAAAAAAAAAAAAAAAAAAAA='']"
  by (simp add: wrong_accept_response_def read_def TextEncoder_encode_def TextDecoder_decode_def
      utf8_bytes_def utf16_units_def trim_def js_whitespace_def js_split_def str_def CRLF_def)

lemma bad_request_lines:
  "butlast (js_split (fst (read bad_request_response)) CRLF) = [str ''HTTP/1.1 400 Bad Request'']"
  by (simp add: bad_request_response_def read_def TextEncoder_encode_def TextDecoder_decode_def
      utf8_bytes_def utf16_units_def trim_def js_whitespace_def js_split_def str_def CRLF_def)

lemmas line_eval = connect_check_line_def js_split_def startsWith_def elem_def str_def trim_def
  js_whitespace_def Let_def

lemma check_status_line:
  "connect_check_line key (str ''HTTP/1.1 101 Switching Protocols'') checks
     = Inr (sparse_set checks 0 True)"
  by (simp add: line_eval)

lemma check_upgrade_line:
  "connect_check_line key (str ''upgrade: websocket'') checks = Inr (sparse_set checks 3 True)"
  by (simp add: line_eval)

lemma check_connection_line:
  "connect_check_line key (str ''connection: Upgrade'') checks = Inr (sparse_set checks 2 True)"
  by (simp add: line_eval)

lemma check_400_line:
  "connect_check_line key (str ''HTTP/1.1 400 Bad Request'') checks = Inr checks"
  by (simp add: line_eval)

lemma check_wrong_accept_line:
  "connect_check_line (str ''dGhlIHNhbXBsZSBub25jZQ=='')
     (str ''sec-websocket-accept: AAAAAAAAAAAAAAAAAAAAAAAAAAA='') checks = Inr checks"
  unfolding connect_check_line_def accept_value
  by (simp add: js_split_def startsWith_def elem_def str_def Let_def)

text \<open>A line that carries the right accept value sets \<open>checks[1]\<close>.\<close>

lemma check_right_accept_line:
  "connect_check_line (str ''dGhlIHNhbXBsZSBub25jZQ=='')
     (str ''sec-websocket-accept: s3pPLMBiTxaQ9kYGzzhZRbK+xOo='') checks
     = Inr (sparse_set checks 1 True)"
  unfolding connect_check_line_def accept_value
  by (simp add: js_split_def startsWith_def elem_def str_def Let_def)

lemma str_nonempty: "str (c # cs) \<noteq> []"
  by (simp add: str_def)

lemma checks_wrong_accept:
  "connect_checks (str ''dGhlIHNhbXBsZSBub25jZQ=='')
     [str ''HTTP/1.1 101 Switching Protocols'', str ''upgrade: websocket'', str ''connection: Upgrade'',
      str ''sec-websocket-accept: AAAAAAAAAAAAAAAAAAAAAAAAAAA=''] []
   = Inr [Some True, None, Some True, Some True]"
  by (simp add: str_nonempty check_status_line check_upgrade_line check_connection_line
      check_wrong_accept_line sparse_set_def replicate_num list_update_num)

lemma checks_bad_request:
  "connect_checks key [str ''HTTP/1.1 400 Bad Request''] [] = Inr []"
  by (simp add: str_nonempty check_400_line)

text \<open>
  No assignment to \<open>checks\<close> stores anything but \<open>true\<close>, so the filter for the failed
  checks finds none, whatever the response is.
\<close>

lemma sparse_set_True:
  assumes "only_true a"
  shows "only_true (sparse_set a i True)"
  unfolding only_true_def
proof
  fix x
  assume "x \<in> set (sparse_set a i True)"
  then have "x \<in> insert (Some True) (set (a @ replicate (Suc i - length a) None))"
    unfolding sparse_set_def using set_update_subset_insert by fast
  then show "x = None \<or> x = Some True"
    using assms by (auto simp: only_true_def)
qed

lemma connect_check_line_True:
  assumes "only_true a"
  shows "case connect_check_line key line a of Inl e \<Rightarrow> True | Inr b \<Rightarrow> only_true b"
  using assms by (simp add: connect_check_line_def Let_def sparse_set_True)

lemma connect_checks_True:
  "only_true a \<Longrightarrow> connect_checks key response a = Inr b \<Longrightarrow> only_true b"
proof (induction response arbitrary: a)
  case Nil
  then show ?case by simp
next
  case (Cons line response)
  show ?case
  proof (cases "line = []")
    case True
    with Cons show ?thesis by simp
  next
    case False
    show ?thesis
    proof (cases "connect_check_line key line a")
      case (Inl e)
      with Cons.prems(2) False show ?thesis by simp
    next
      case (Inr a')
      with connect_check_line_True[OF Cons.prems(1), of key line] have "only_true a'" by simp
      moreover from Inr Cons.prems(2) False have "connect_checks key response a' = Inr b" by simp
      ultimately show ?thesis by (rule Cons.IH)
    qed
  qed
qed

lemma sparse_filter_only_true: "only_true a \<Longrightarrow> sparse_filter (\<lambda>check. \<not> check) a = []"
proof (induction a)
  case Nil
  then show ?case by simp
next
  case (Cons x a)
  then have "only_true a" "x = None \<or> x = Some True"
    by (simp_all add: only_true_def)
  with Cons.IH show ?case by auto
qed

lemma connect_never_rejects:
  assumes "connect rnd c chunk = Inr c'"
  shows "readyState c' = CONNECTED \<and> connection c'"
proof (cases "connect_checks (generateSecWebSocketKey (rnd (draws c)))
                (butlast (js_split (fst (read chunk)) CRLF)) []")
  case (Inl e)
  with assms show ?thesis by (simp add: connect_def Let_def)
next
  case (Inr checks)
  then have "only_true checks"
    using connect_checks_True[of "[]"] by (simp add: only_true_def)
  then have "sparse_filter (\<lambda>check. \<not> check) checks = []"
    by (rule sparse_filter_only_true)
  with assms Inr show ?thesis
    by (auto simp: connect_def Let_def write_conn_def)
qed

lemma bad_request_connected:
  "connect_outcome (connect rnd0 client_new bad_request_response) = Inr (CONNECTED, True)"
  by (simp add: connect_def Let_def sample_key bad_request_lines checks_bad_request write_conn_def
      del: connect_checks.simps)

section \<open>The claims\<close>

text \<open>
  C1 on the code: the three frames with opcodes 1, 0, 0 (FIN on the last) and payloads
  \<open>He\<close>, \<open>ll\<close>, \<open>o\<close>, received in one read by the connected client \<open>client0\<close>, are
  reassembled to \<open>Hello\<close>, but \<open>handleFrame\<close> is given the opcode 0 of the last frame
  and not the opcode 1 of the first: no message reaches \<open>onMessage\<close>, the client
  writes a Close frame with status 1003 and goes to \<open>CLOSING\<close>.
\<close>

theorem fragmented_hello_closes:
  "observe (listenForFrames_read 4 rnd0 client0 hello_fragments [])
     = Some (CLOSING, [Write [0x88, 0x82, 0x74, 0x68, 0x65, 0x20, 0x77, 0x83]], [])
   \<and> decode_frames 2 rnd0 11 client0 hello_buffer 8 [[0x48, 0x65], [0x6C, 0x6C]]
     = Some (fst (handleFrame rnd0 client0 0x0 [0x48, 0x65, 0x6C, 0x6C, 0x6F]), hello_buffer, [])
   \<and> handleFrame rnd0 client0 0x0 [0x48, 0x65, 0x6C, 0x6C, 0x6F]
     = (close rnd0 client0 INVALID_OPCODE, [0x48, 0x65, 0x6C, 0x6C, 0x6F])
   \<and> spec_Encode 0x8 [0x03, 0xEB] True [0x74, 0x68, 0x65, 0x20]
     = [0x88, 0x82, 0x74, 0x68, 0x65, 0x20, 0x77, 0x83]"
proof -
  have "listenForFrames_read (Suc (Suc (Suc (Suc 0)))) rnd0 client0 hello_fragments []
        = Some (close rnd0 client0 INVALID_OPCODE, hello_buffer, [])"
    by (simp add: listenForFrames_read_def read_hello hello_data_length
        hello_step1 hello_step2 hello_step3 hello_step4 handleFrame_continuation
        del: decode_frames.simps)
  moreover have "decode_frames (Suc (Suc 0)) rnd0 11 client0 hello_buffer 8 [[0x48, 0x65], [0x6C, 0x6C]]
     = Some (fst (handleFrame rnd0 client0 0x0 [0x48, 0x65, 0x6C, 0x6C, 0x6F]), hello_buffer, [])"
    by (simp only: hello_step3 hello_step4)
  moreover have "spec_Encode 0x8 [0x03, 0xEB] True [0x74, 0x68, 0x65, 0x20]
     = [0x88, 0x82, 0x74, 0x68, 0x65, 0x20, 0x77, 0x83]"
    by (simp add: spec_Encode_masked_small xor_mask_def upt_rec[of _ 2])
  ultimately show ?thesis
    by (simp add: numeral_eq_Suc close_invalid_opcode_client0 handleFrame_continuation
        del: decode_frames.simps)
qed

text \<open>
  C2 on the code: with the key \<open>dGhlIHNhbXBsZSBub25jZQ==\<close> the client computes the
  accept value \<open>s3pPLMBiTxaQ9kYGzzhZRbK+xOo=\<close>; a 101 response that carries another
  value leaves a hole at \<open>checks[1]\<close>, which the filter for failed checks skips, and
  \<open>connect\<close> ends in the state \<open>CONNECTED\<close> holding the connection.
\<close>

theorem wrong_accept_connected:
  "connect_outcome (connect rnd0 client_new wrong_accept_response) = Inr (CONNECTED, True)
   \<and> connect_checks (generateSecWebSocketKey (rnd0 0))
         (butlast (js_split (fst (read wrong_accept_response)) CRLF)) []
       = Inr [Some True, None, Some True, Some True]
   \<and> encodeBase64 (sha1 (TextEncoder_encode (generateSecWebSocketKey (rnd0 0) @ GUID)))
       = str ''s3pPLMBiTxaQ9kYGzzhZRbK+xOo=''"
  by (simp add: connect_def Let_def sample_key wrong_accept_lines checks_wrong_accept
      accept_value write_conn_def del: connect_checks.simps)

text \<open>
  C3 on the code: for a payload of 65536 bytes the eight length bytes of
  \<open>FrameGenerator\<close> are \<open>00 01 00 00 00 01 00 00\<close> (the shift count is taken modulo
  32, so the four low bytes appear twice) where the format has
  \<open>00 00 00 00 00 01 00 00\<close>; and the frame of a payload of \<open>2 ^ 32 + 1\<close> bytes is
  decoded with the length 1 (the length is rebuilt in 32 bits): the message handed to
  \<open>onMessage\<close> is the first payload byte alone, and decoding goes on inside the payload.
\<close>

theorem long_length_not_round_trip:
  "take 10 (fst (FrameGenerator 0x2 (replicate 65536 0) (Some False) (rnd0 0)))
     = [0x82, 0x7F, 0, 1, 0, 0, 0, 1, 0, 0]
   \<and> take 10 (spec_Encode 0x2 (replicate 65536 0) False [])
     = [0x82, 0x7F, 0, 0, 0, 0, 0, 1, 0, 0]
   \<and> fst (FrameGenerator 0x2 huge_payload (Some False) (rnd0 0)) = huge_frame
   \<and> length huge_payload = 4294967297
   \<and> observe (decode_frames 2 rnd0 (length huge_frame) client0 huge_frame 0 [])
     = Some (CLOSING,
             [OnMessage (Message (Uint8Array [0x00]) BINARY),
              Write [0x88, 0x82, 0x74, 0x68, 0x65, 0x20, 0x77, 0x82]], [])"
proof -
  have "take 10 (fst (FrameGenerator 0x2 (replicate 65536 0) (Some False) (rnd0 0)))
     = [0x82, 0x7F, 0, 1, 0, 0, 0, 1, 0, 0]"
    by (simp add: FG_unmasked_large js_eval)
  moreover have "take 10 (spec_Encode 0x2 (replicate 65536 0) False [])
     = [0x82, 0x7F, 0, 0, 0, 0, 0, 1, 0, 0]"
    by (simp add: spec_Encode_unmasked_large big_endian_def upt_0_8)
  moreover have "decode_frames (Suc (Suc 0)) rnd0 4294967307 client0 huge_frame 0 []
     = Some (close rnd0 (client0\<lparr>trace := [OnMessage (Message (Uint8Array [0x00]) BINARY)]\<rparr>)
               PROTOCOL_ERROR, huge_frame, [])"
    by (simp only: huge_step1 huge_step2)
  moreover have "close rnd0 (client0\<lparr>trace := [OnMessage (Message (Uint8Array [0x00]) BINARY)]\<rparr>)
       PROTOCOL_ERROR
     = client0\<lparr>readyState := CLOSING, draws := Suc 0,
         trace := [OnMessage (Message (Uint8Array [0x00]) BINARY),
                   Write [0x88, 0x82, 0x74, 0x68, 0x65, 0x20, 0x77, 0x82]],
         pending := [CloseDone], connection := False\<rparr>"
    by (simp add: close_open PROTOCOL_ERROR_def client0_def client_new_def spec_Encode_masked_small
        xor_mask_def upt_0_4 rnd0_def js_eval upt_rec[of _ 2])
  ultimately show ?thesis
    by (simp add: huge_frame_encoded huge_payload_length huge_frame_length numeral_eq_Suc[of "num.Bit0 num.One"]
        del: decode_frames.simps)
qed

text \<open>
  What the loop does at a masked frame it reaches: when the offset is below
  \<open>data.length\<close> and the second header byte there has bit 7 (the mask bit) set, it
  calls \<open>close\<close> with \<open>PROTOCOL_ERROR\<close> (1002) and stops decoding the buffer at once;
  the frame's payload reaches no handler, and on a connected client the only effect is
  the masked Close frame with status 1002 and the state \<open>CLOSING\<close>.
\<close>

lemma masked_frame_reached:
  assumes "offset < int dataLength" and "at buffer (offset + 1) = Some b" and "bit b 7"
  shows "decode_frames (Suc fuel) rnd dataLength c buffer offset messageBuffer
           = Some (close rnd c PROTOCOL_ERROR, buffer, messageBuffer)
         \<and> filter is_callback (trace (close rnd c PROTOCOL_ERROR)) = filter is_callback (trace c)
         \<and> (readyState c = CONNECTED \<and> connection c \<longrightarrow>
              readyState (close rnd c PROTOCOL_ERROR) = CLOSING
              \<and> trace (close rnd c PROTOCOL_ERROR)
                  = trace c @ [Write (spec_Encode 0x8 [0x03, 0xEA] True (map (rnd (draws c)) [0..<4]))])"
proof -
  have "js_shr (js_and (num (at buffer (offset + 1))) 0x80) 7 \<noteq> 0"
    using assms(2,3) by (simp add: num_def mask_bit)
  then have "decode_frames (Suc fuel) rnd dataLength c buffer offset messageBuffer
           = Some (close rnd c PROTOCOL_ERROR, buffer, messageBuffer)"
    using assms(1) by (simp add: Let_def)
  moreover have "readyState c = CONNECTED \<and> connection c \<longrightarrow>
              readyState (close rnd c PROTOCOL_ERROR) = CLOSING
              \<and> trace (close rnd c PROTOCOL_ERROR)
                  = trace c @ [Write (spec_Encode 0x8 [0x03, 0xEA] True (map (rnd (draws c)) [0..<4]))]"
    by (simp add: close_open PROTOCOL_ERROR_def js_and_def js_shr_def ToInt32_def ToUint8_def)
  ultimately show ?thesis
    by (simp add: close_callbacks)
qed

text \<open>
  The masked text frame \<open>Hello\<close> of RFC 6455 at the start of the buffer of the connected
  client \<open>client0\<close>: the loop returns after one step with the Close frame 1002 written.
\<close>

lemma masked_frame_reached_example:
  "decode_frames (Suc 0) rnd0 11 client0
       [0x81, 0x85, 0x37, 0xFA, 0x21, 0x3D, 0x7F, 0x9F, 0x4D, 0x51, 0x58] 0 []
     = Some (close rnd0 client0 PROTOCOL_ERROR,
             [0x81, 0x85, 0x37, 0xFA, 0x21, 0x3D, 0x7F, 0x9F, 0x4D, 0x51, 0x58], [])
   \<and> readyState (close rnd0 client0 PROTOCOL_ERROR) = CLOSING
   \<and> trace (close rnd0 client0 PROTOCOL_ERROR)
       = [Write (spec_Encode 0x8 [0x03, 0xEA] True (map (rnd0 0) [0..<4]))]"
  using masked_frame_reached[of 0 11
      "[0x81, 0x85, 0x37, 0xFA, 0x21, 0x3D, 0x7F, 0x9F, 0x4D, 0x51, 0x58]" "0x85" 0 rnd0 client0 "[]"]
  by (simp add: at_def client0_def client_new_def)

text \<open>
  C4 on the code: the loop is bounded by \<open>data.length\<close>, the length of the trimmed
  decoded text, and not by the number of bytes read. One read of 31 bytes brings a text
  frame of six euro signs and then, from offset 20 on, the masked frame \<open>Hello\<close>. The
  31 bytes are 19 code units of text, so after the first frame the offset 20 is past the
  bound: the masked frame is never looked at, \<open>close\<close> is not called with
  \<open>PROTOCOL_ERROR\<close>, nothing is written, and the client stays \<open>CONNECTED\<close> after
  handing the euro signs to \<open>onMessage\<close>.
\<close>

theorem masked_frame_past_text_length_ignored:
  "length (fst (read euro_then_masked)) = 19
   \<and> length euro_then_masked = 31
   \<and> drop 20 euro_then_masked = [0x81, 0x85, 0x37, 0xFA, 0x21, 0x3D, 0x7F, 0x9F, 0x4D, 0x51, 0x58]
   \<and> at (snd (read euro_then_masked)) 21 = Some 0x85
   \<and> bit (0x85 :: byte) 7
   \<and> observe (listenForFrames_read 2 rnd0 client0 euro_then_masked [])
     = Some (CONNECTED,
             [OnMessage (Message (String [0x20AC, 0x20AC, 0x20AC, 0x20AC, 0x20AC, 0x20AC]) TEXT)],
             [])"
proof -
  have "listenForFrames_read (Suc (Suc 0)) rnd0 client0 euro_then_masked []
     = Some (client0\<lparr>trace :=
               [OnMessage (Message (String [0x20AC, 0x20AC, 0x20AC, 0x20AC, 0x20AC, 0x20AC]) TEXT)]\<rparr>,
             euro_buffer, [])"
    by (simp add: listenForFrames_read_def read_euro euro_data_length euro_step1 euro_step2
        del: decode_frames.simps)
  moreover have "at (snd (read euro_then_masked)) 21 = Some 0x85"
    by (simp add: read_euro) (simp add: euro_buffer_def euro_then_masked_def at_Cons)
  moreover have "drop 20 euro_then_masked = [0x81, 0x85, 0x37, 0xFA, 0x21, 0x3D, 0x7F, 0x9F, 0x4D, 0x51, 0x58]"
    "length euro_then_masked = 31"
    by (simp_all add: euro_then_masked_def)
  ultimately show ?thesis
    by (simp add: numeral_eq_Suc[of "num.Bit0 num.One"] read_euro euro_data_length
        client0_def client_new_def del: decode_frames.simps)
qed

text \<open>
  C5 on the code: a Ping whose payload has 126 bytes is answered by one write, but the
  frame written is not the masked Pong of that payload: \<open>FrameGenerator\<close> stores the
  masking key at offset 2 of the header, over the two length bytes \<open>00 7E\<close>, and
  leaves the place of the key half empty.
\<close>

theorem ping_126_pong_malformed:
  "trace (fst (handleFrame rnd0 client0 0x9 (replicate 126 0x61)))
     = [Write ([0x8A, 0xFE, 0x74, 0x68, 0x65, 0x20, 0x00, 0x00]
               @ xor_mask (replicate 126 0x61) [0x74, 0x68, 0x65, 0x20])]
   \<and> spec_Encode 0xA (replicate 126 0x61) True [0x74, 0x68, 0x65, 0x20]
     = [0x8A, 0xFE, 0x00, 0x7E, 0x74, 0x68, 0x65, 0x20]
       @ xor_mask (replicate 126 0x61) [0x74, 0x68, 0x65, 0x20]"
  by (simp add: handleFrame_def FG_masked_medium spec_Encode_masked_medium big_endian_def
      write_conn_def client0_def client_new_def rnd0_def js_or_def ToInt32_def ToUint8_def
      upt_rec[of _ 2])

text \<open>
  C6: \<open>send\<close> in the state \<open>CONNECTING\<close>, \<open>CLOSING\<close> or \<open>CLOSED\<close>, whatever the
  payload, and \<open>send\<close> of the empty string in the state \<open>CONNECTED\<close> or \<open>OPEN\<close>,
  returns the client as it was: nothing is written to the transport and the state is
  unchanged.
\<close>

theorem send_guard:
  "readyState c \<in> {CONNECTING, CLOSING, CLOSED} \<or> (readyState c \<in> {CONNECTED, OPEN} \<and> data = [])
     \<Longrightarrow> send rnd c data = c"
  by (auto simp: send_def)

text \<open>A closed client sending \<open>Hello\<close>, and a connected client sending the empty string.\<close>

theorem send_guard_witness:
  "send rnd0 client_new (str ''Hello'') = client_new \<and> send rnd0 client0 [] = client0"
proof -
  have "readyState client_new = CLOSED" by (simp add: client_new_def)
  moreover have "readyState client0 = CONNECTED" by (simp add: client0_def)
  ultimately show ?thesis
    using send_guard[of client_new "str ''Hello''" rnd0] send_guard[of client0 "[]" rnd0] by simp
qed

text \<open>
  C7, as the code has it: on a client in the state \<open>CONNECTED\<close> or \<open>OPEN\<close> that holds
  its connection, a second \<open>close\<close> right after the first changes nothing, so exactly
  one masked Close frame with the first call's status is written; once the writes in
  flight have completed (only sends were in flight before) the transport has been closed
  once and the state is \<open>CLOSED\<close>. \<open>close\<close> in the state \<open>CLOSING\<close> or \<open>CLOSED\<close>
  returns the client as it was. No call of \<open>close\<close> invokes the \<open>onClose\<close> handler.
\<close>

theorem close_twice:
  "(readyState c \<in> {CONNECTED, OPEN} \<and> connection c \<longrightarrow>
       close rnd (close rnd c e1) e2 = close rnd c e1
     \<and> trace (close rnd c e1)
         = trace c @ [Write (spec_Encode 0x8 [ToUint8 (js_and (js_shr e1 8) 0xFF), ToUint8 (js_and e1 0xFF)]
                        True (map (rnd (draws c)) [0..<4]))]
     \<and> (set (pending c) \<subseteq> {SendDone} \<longrightarrow>
          readyState (writes_completed (close rnd (close rnd c e1) e2)) = CLOSED
        \<and> trace (writes_completed (close rnd (close rnd c e1) e2))
            = trace c @ [Write (spec_Encode 0x8 [ToUint8 (js_and (js_shr e1 8) 0xFF), ToUint8 (js_and e1 0xFF)]
                           True (map (rnd (draws c)) [0..<4])),
                         ConnClose]))
   \<and> (readyState c \<in> {CLOSING, CLOSED} \<longrightarrow> close rnd c e = c)
   \<and> filter is_OnClose (trace (close rnd c e)) = filter is_OnClose (trace c)"
proof -
  {
    assume a: "readyState c \<in> {CONNECTED, OPEN}" "connection c"
    then have open_: "readyState c \<noteq> CLOSED" "readyState c \<noteq> CLOSING" by auto
    note first = close_open[OF open_ a(2), of rnd e1]
    have second: "close rnd (close rnd c e1) e2 = close rnd c e1"
      by (rule close_closed) (simp add: first)
    {
      assume p: "set (pending c) \<subseteq> {SendDone}"
      have "writes_completed (close rnd c e1)
              = resume CloseDone (fold resume (pending c) ((close rnd c e1)\<lparr>pending := []\<rparr>))"
        by (simp add: writes_completed_def first)
      then have "readyState (writes_completed (close rnd c e1)) = CLOSED
        \<and> trace (writes_completed (close rnd c e1))
            = trace c @ [Write (spec_Encode 0x8 [ToUint8 (js_and (js_shr e1 8) 0xFF), ToUint8 (js_and e1 0xFF)]
                           True (map (rnd (draws c)) [0..<4])),
                         ConnClose]"
        using fold_resume_SendDone[OF p, of "(close rnd c e1)\<lparr>pending := []\<rparr>"]
        by (simp add: first)
    }
    with second have "close rnd (close rnd c e1) e2 = close rnd c e1
     \<and> trace (close rnd c e1)
         = trace c @ [Write (spec_Encode 0x8 [ToUint8 (js_and (js_shr e1 8) 0xFF), ToUint8 (js_and e1 0xFF)]
                        True (map (rnd (draws c)) [0..<4]))]
     \<and> (set (pending c) \<subseteq> {SendDone} \<longrightarrow>
          readyState (writes_completed (close rnd (close rnd c e1) e2)) = CLOSED
        \<and> trace (writes_completed (close rnd (close rnd c e1) e2))
            = trace c @ [Write (spec_Encode 0x8 [ToUint8 (js_and (js_shr e1 8) 0xFF), ToUint8 (js_and e1 0xFF)]
                           True (map (rnd (draws c)) [0..<4])),
                         ConnClose])"
      by (simp add: first)
  }
  moreover have "readyState c \<in> {CLOSING, CLOSED} \<longrightarrow> close rnd c e = c"
    using close_closed[of c rnd e] by auto
  ultimately show ?thesis
    by (simp only: close_OnClose) blast
qed

text \<open>
  The connected client \<open>client0\<close> closed twice with status 1000, and the closed client
  \<open>client_new\<close> closed once.
\<close>

theorem close_twice_witness:
  "close rnd0 (close rnd0 client0 1000) 1000 = close rnd0 client0 1000
   \<and> readyState (writes_completed (close rnd0 (close rnd0 client0 1000) 1000)) = CLOSED
   \<and> trace (writes_completed (close rnd0 (close rnd0 client0 1000) 1000))
       = [Write (spec_Encode 0x8 [0x03, 0xE8] True (map (rnd0 0) [0..<4])), ConnClose]
   \<and> close rnd0 client_new 1000 = client_new"
proof -
  have c0: "readyState client0 = CONNECTED" "connection client0" "pending client0 = []"
    "trace client0 = []" "draws client0 = 0"
    by (simp_all add: client0_def client_new_def)
  have cn: "readyState client_new = CLOSED"
    by (simp add: client_new_def)
  have b: "ToUint8 (js_and (js_shr 1000 8) 0xFF) = 0x03" "ToUint8 (js_and 1000 0xFF) = 0xE8"
    by (simp_all add: js_and_def js_shr_def ToInt32_def ToUint8_def)
  show ?thesis
    using close_twice[of client0 rnd0 1000 1000 1000] close_twice[of client_new rnd0 1000 1000 1000]
    by (auto simp: c0 cn b)
qed

text \<open>
  The claim as the specification words it also counts one \<open>onClose\<close>: after two calls
  of \<open>close\<close> and the completion of the write, the effects of \<open>client0\<close> are the Close
  frame and the closing of the transport, and no call of \<open>onClose\<close> at all.
\<close>

theorem close_twice_no_onClose:
  "trace (writes_completed (close rnd0 (close rnd0 client0 1000) 1000))
     = [Write [0x88, 0x82, 0x74, 0x68, 0x65, 0x20, 0x77, 0x80], ConnClose]
   \<and> length (filter is_OnClose (trace (writes_completed (close rnd0 (close rnd0 client0 1000) 1000)))) \<noteq> 1"
proof -
  have c0: "readyState client0 = CONNECTED" "connection client0" "pending client0 = []"
    "trace client0 = []" "draws client0 = 0"
    by (simp_all add: client0_def client_new_def)
  have first: "close rnd0 client0 1000 =
     client0\<lparr>readyState := CLOSING, draws := Suc 0,
       trace := [Write [0x88, 0x82, 0x74, 0x68, 0x65, 0x20, 0x77, 0x80]],
       pending := [CloseDone], connection := False\<rparr>"
    by (simp add: close_open c0 spec_Encode_masked_small xor_mask_def upt_0_4 rnd0_def
        js_and_def js_shr_def ToInt32_def ToUint8_def)
  have second: "close rnd0 (close rnd0 client0 1000) 1000 = close rnd0 client0 1000"
    by (rule close_closed) (simp add: first)
  show ?thesis
    by (simp add: second) (simp add: first writes_completed_def c0)
qed

text \<open>
  C8, as the code has it: right after construction the state is \<open>CLOSED\<close>, and the
  client holds no connection.
\<close>

theorem constructed_closed:
  "constructor new_URL connectOptions = Inr c \<Longrightarrow> readyState c = CLOSED \<and> \<not> connection c"
  by (auto simp: constructor_def split: option.splits if_splits)

text \<open>The client built from the URL \<open>ws://example.com/chat\<close>.\<close>

theorem constructed_closed_witness:
  "constructor new_URL0 options0 = Inr client_new
   \<and> readyState client_new = CLOSED \<and> \<not> connection client_new"
  using constructed_closed[of new_URL0 options0 client_new] constructor_options0 by simp

text \<open>The same client contradicts the claim as stated: its state is not \<open>CONNECTING\<close>.\<close>

theorem constructed_not_connecting:
  "constructor new_URL0 options0 = Inr client_new \<and> readyState client_new \<noteq> CONNECTING"
  by (simp add: constructor_options0) (simp add: client_new_def)

text \<open>
  C9: with the argument \<open>masked\<close> omitted, for every opcode and payload, the frame is
  exactly this: byte 0 is \<open>0x80 | opcode\<close>; byte 1 has the mask bit 0 and the length
  field the payload's length calls for (the length up to 125, else 126, else 127); bytes
  2 to 5 hold the random masking key (header of 6 bytes plus the length extension); the
  payload follows as it was given, and the caller's array is not XORed. So the header
  announces an unmasked frame whose payload starts after the two header bytes and the
  length extension, and the payload really starts 4 bytes later.
\<close>

theorem FrameGenerator_masked_omitted:
  "(let frame = fst (FrameGenerator opcode data None r)
    in frame =
         (if length data \<le> 125 then
            [ToUint8 (js_or 0x80 opcode), of_nat (length data), r 0, r 1, r 2, r 3] @ data
          else if length data \<le> 65535 then
            [ToUint8 (js_or 0x80 opcode), 126, r 0, r 1, r 2, r 3, 0, 0] @ data
          else
            [ToUint8 (js_or 0x80 opcode), 127, r 0, r 1, r 2, r 3,
             ToUint8 (js_and (js_shr (int (length data)) 24) 0xff),
             ToUint8 (js_and (js_shr (int (length data)) 16) 0xff),
             ToUint8 (js_and (js_shr (int (length data)) 8) 0xff),
             ToUint8 (js_and (js_shr (int (length data)) 0) 0xff), 0, 0, 0, 0] @ data)
       \<and> frame ! 0 = ToUint8 (js_or 0x80 opcode)
       \<and> \<not> bit (frame ! 1) 7
       \<and> unat (frame ! 1) mod 128
           = (if length data \<le> 125 then length data else if length data \<le> 65535 then 126 else 127)
       \<and> take 4 (drop 2 frame) = map r [0..<4]
       \<and> announced_payload_offset frame
           = 2 + (if length data \<le> 125 then 0 else if length data \<le> 65535 then 2 else 8)
       \<and> length frame = announced_payload_offset frame + 4 + length data
       \<and> drop (announced_payload_offset frame + 4) frame = data)
   \<and> snd (FrameGenerator opcode data None r) = data"
proof -
  consider "length data \<le> 125" | "125 < length data" "length data \<le> 65535" | "65535 < length data"
    by linarith
  then show ?thesis
  proof cases
    case 1
    then have "unat (of_nat (length data) :: byte) = length data"
      by (simp add: unat_of_nat)
    with 1 show ?thesis
      by (simp add: FG_omitted_small upt_0_4 small_length_bit7 announced_payload_offset_def)
  next
    case 2
    then show ?thesis
      by (simp add: FG_omitted_medium upt_0_4 announced_payload_offset_def)
  next
    case 3
    then show ?thesis
      by (simp add: FG_omitted_large upt_0_4 announced_payload_offset_def)
  qed
qed




end
